theory Spec2Isabelle
  imports Main "HOL-Library.Char_ord" "HOL-Library.List_Lexorder"
begin

section \<open>Offline storage of food entries (src/offlineStorage.ts)\<close>

subsection \<open>Data model\<close>

text \<open>
  A JavaScript \<open>Date\<close> holds a time value: an integral number of milliseconds, or NaN for
  an invalid date. The relational operators convert both dates to their time values and
  answer \<open>false\<close> as soon as one of them is NaN.
\<close>

datatype Date = Time int | Invalid_Date

fun date_ge :: "Date \<Rightarrow> Date \<Rightarrow> bool" where
  "date_ge (Time a) (Time b) = (a \<ge> b)"
| "date_ge _ _ = False"

fun date_lt :: "Date \<Rightarrow> Date \<Rightarrow> bool" where
  "date_lt (Time a) (Time b) = (a < b)"
| "date_lt _ _ = False"

text \<open>
  The interface \<open>FoodEntry\<close>. The optional fields \<open>id?\<close> and \<open>synced?\<close> are options;
  the four nutrition numbers are never inspected by this module, so their type is a
  parameter.
\<close>

record 'n FoodEntry =
  id' :: "string option"
  name :: string
  calories :: 'n
  protein :: 'n
  carbs :: 'n
  fat :: 'n
  date :: Date
  userId :: string
  synced :: "bool option"

datatype error = Rejected string | TypeError | DataError

datatype response = NetworkError | Response bool

datatype trigger = RunSync | RegisterSync | NoTrigger

text \<open>
  What the host environment answers during one operation: \<open>navigator.onLine\<close>, whether
  \<open>indexedDB.open\<close> fires \<open>onerror\<close>, whether the operation's store request fires
  \<open>onerror\<close>, what \<open>fetch\<close> does with a given body (a rejected promise, or a response
  with its \<open>ok\<close> flag), \<open>Date.now()\<close>, the string \<open>Math.random().toString(36)\<close>, and
  whether a service worker with a \<open>SyncManager\<close> is there.
\<close>

record 'n env =
  onLine :: bool
  openError :: bool
  requestError :: bool
  fetch :: "'n FoodEntry \<Rightarrow> response"
  now :: int
  random36 :: string
  syncManager :: bool

text \<open>
  The world the module acts on: the object store \<open>foodEntries\<close> (its records in ascending
  key order, as the store keeps them), the bodies POSTed to \<open>/api/foodEntries\<close>, and the
  lines written with \<open>console.error\<close>.
\<close>

record 'n world =
  store :: "'n FoodEntry list"
  network :: "'n FoodEntry list"
  console :: "(string \<times> error) list"

subsection \<open>The object store\<close>

text \<open>The store's key path is \<open>id\<close>.\<close>

definition key_of :: "'n FoodEntry \<Rightarrow> string" where
  "key_of e = (case id' e of Some k \<Rightarrow> k | None \<Rightarrow> [])"

definition keys :: "'n FoodEntry list \<Rightarrow> string set" where
  "keys st = key_of ` set st"

text \<open>\<open>store.put\<close>: the record takes the place of the one with its key, or its own place in key order.\<close>

fun put :: "'n FoodEntry \<Rightarrow> 'n FoodEntry list \<Rightarrow> 'n FoodEntry list" where
  "put e [] = [e]"
| "put e (x # xs) =
     (if key_of e < key_of x then e # x # xs
      else if key_of e = key_of x then e # xs
      else x # put e xs)"

text \<open>
  \<open>store.add\<close>: as \<open>put\<close>, but the request fails when the key is already in the store
  (or when the environment fails the request).
\<close>

definition add :: "'n env \<Rightarrow> 'n FoodEntry \<Rightarrow> 'n FoodEntry list \<Rightarrow> unit + 'n FoodEntry list" where
  "add env e st = (if requestError env \<or> key_of e \<in> keys st then Inl () else Inr (put e st))"

text \<open>Reading one record by its key (\<open>store.get\<close>), to observe the store.\<close>

definition getEntry :: "'n FoodEntry list \<Rightarrow> string \<Rightarrow> 'n FoodEntry option" where
  "getEntry st k = find (\<lambda>e. key_of e = k) st"

text \<open>The store's invariant: keys strictly ascending, hence unique.\<close>

definition wf_store :: "'n FoodEntry list \<Rightarrow> bool" where
  "wf_store st = sorted_wrt (<) (map key_of st)"

text \<open>
  The secondary indexes. An index holds a record under the value its key path yields, and
  only if that value is a valid key: a string or a valid date is one, a boolean or
  \<open>undefined\<close> is not. \<open>index.getAll(query)\<close> throws a \<open>DataError\<close> when the query is not a valid
  key, and otherwise yields the records held under it.
\<close>

datatype jsvalue = JSUndefined | JSBoolean bool | JSString string | JSDate Date

fun valid_key :: "jsvalue \<Rightarrow> bool" where
  "valid_key (JSString s) = True"
| "valid_key (JSDate (Time t)) = True"
| "valid_key (JSDate Invalid_Date) = False"
| "valid_key (JSBoolean b) = False"
| "valid_key JSUndefined = False"

definition index_getAll ::
  "('n FoodEntry \<Rightarrow> jsvalue) \<Rightarrow> jsvalue \<Rightarrow> 'n FoodEntry list \<Rightarrow> error + 'n FoodEntry list" where
  "index_getAll keyPath query st =
     (if valid_key query then Inr (filter (\<lambda>e. keyPath e = query) st) else Inl DataError)"

text \<open>The key path \<open>synced\<close> of the index \<open>synced\<close>.\<close>

definition synced_value :: "'n FoodEntry \<Rightarrow> jsvalue" where
  "synced_value e = (case synced e of None \<Rightarrow> JSUndefined | Some b \<Rightarrow> JSBoolean b)"

definition logError :: "string \<Rightarrow> error \<Rightarrow> 'n world \<Rightarrow> 'n world" where
  "logError msg err w = w\<lparr>console := console w @ [(msg, err)]\<rparr>"

subsection \<open>openDatabase\<close>

definition openDatabase :: "'n env \<Rightarrow> error + unit" where
  "openDatabase env =
     (if openError env then Inl (Rejected ''Error opening IndexedDB database'') else Inr ())"

subsection \<open>saveFoodEntry\<close>

text \<open>
  Number-to-string conversion as a template literal does it for an integer below \<open>10^21\<close>,
  which every value of \<open>Date.now()\<close> is: a minus sign if negative, then the decimal digits.
\<close>

fun show_nat :: "nat \<Rightarrow> string" where
  "show_nat n =
     (if n < 10 then [''0123456789'' ! n]
      else show_nat (n div 10) @ [''0123456789'' ! (n mod 10)])"

declare show_nat.simps [simp del]

definition show_int :: "int \<Rightarrow> string" where
  "show_int i = (if i < 0 then CHR ''-'' # show_nat (nat (- i)) else show_nat (nat i))"

text \<open>\<open>`local_${Date.now()}_${Math.random().toString(36).substr(2, 9)}`\<close>\<close>

definition generated_id :: "'n env \<Rightarrow> string" where
  "generated_id env =
     ''local_'' @ show_int (now env) @ ''_'' @ take 9 (drop 2 (random36 env))"

text \<open>
  The shape of the generated id: decimal digits, then characters of the base-36 alphabet.
  \<open>Math.random()\<close> lies in \<open>[0, 1)\<close>, so \<open>toString(36)\<close> writes it as \<open>0\<close>, or as
  \<open>0.\<close> followed by at least one base-36 digit.
\<close>

definition is_digit :: "char \<Rightarrow> bool" where
  "is_digit c = (c \<in> set ''0123456789'')"

definition is_base36 :: "char \<Rightarrow> bool" where
  "is_base36 c = (c \<in> set ''0123456789abcdefghijklmnopqrstuvwxyz'')"

definition is_alnum :: "char \<Rightarrow> bool" where
  "is_alnum c = (is_base36 c \<or> c \<in> set ''ABCDEFGHIJKLMNOPQRSTUVWXYZ'')"

definition radix36_fraction :: "string \<Rightarrow> bool" where
  "radix36_fraction s =
     (s = ''0'' \<or> (take 2 s = ''0.'' \<and> drop 2 s \<noteq> [] \<and> list_all is_base36 (drop 2 s)))"

text \<open>The number that a string of decimal digits denotes.\<close>

definition digit_val :: "char \<Rightarrow> nat" where
  "digit_val c = length (takeWhile (\<lambda>d. d \<noteq> c) ''0123456789'')"

definition digits_value :: "string \<Rightarrow> nat" where
  "digits_value ds = foldl (\<lambda>a c. 10 * a + digit_val c) 0 ds"

text \<open>
  The pattern \<open>local_<digits>_<alnum>\<close> of the specification: the prefix \<open>local_\<close>, one or
  more decimal digits, an underscore, one or more letters or digits.
\<close>

definition local_id_pattern :: "string \<Rightarrow> bool" where
  "local_id_pattern s =
     (take 6 s = ''local_'' \<and>
      (let ds = takeWhile is_digit (drop 6 s); rest = dropWhile is_digit (drop 6 s) in
       ds \<noteq> [] \<and>
       (case rest of
          [] \<Rightarrow> False
        | c # suffix \<Rightarrow> c = CHR ''_'' \<and> suffix \<noteq> [] \<and> list_all is_alnum suffix)))"

text \<open>\<open>!entry.id\<close> holds of an absent id and of the empty string.\<close>

definition no_id :: "'n FoodEntry \<Rightarrow> bool" where
  "no_id e = (case id' e of None \<Rightarrow> True | Some k \<Rightarrow> k = [])"

text \<open>The two assignments to the caller's object, made before \<open>store.add\<close> is called.\<close>

definition prepare :: "'n env \<Rightarrow> 'n FoodEntry \<Rightarrow> 'n FoodEntry" where
  "prepare env entry =
     (if no_id entry then entry\<lparr>id' := Some (generated_id env)\<rparr> else entry)
       \<lparr>synced := Some False\<rparr>"

text \<open>
  The result is: what the returned promise settles to, the caller's object after the call,
  what \<open>onsuccess\<close> set off (a fire-and-forget \<open>syncWithServer()\<close>, a registration for
  background sync, or nothing), and the world. A failed \<open>openDatabase\<close> is caught, logged
  and thrown again; the promise around \<open>store.add\<close> is returned as it is.
\<close>

definition saveFoodEntry ::
  "'n env \<Rightarrow> 'n world \<Rightarrow> 'n FoodEntry \<Rightarrow> (error + string) \<times> 'n FoodEntry \<times> trigger \<times> 'n world" where
  "saveFoodEntry env w entry =
     (case openDatabase env of
        Inl err \<Rightarrow> (Inl err, entry, NoTrigger, logError ''Error in saveFoodEntry:'' err w)
      | Inr db \<Rightarrow>
          (let entry' = prepare env entry in
           case add env entry' (store w) of
             Inl u \<Rightarrow> (Inl (Rejected ''Error saving food entry to IndexedDB''), entry', NoTrigger, w)
           | Inr st \<Rightarrow>
               (Inr (key_of entry'), entry',
                (if onLine env then RunSync
                 else if syncManager env then RegisterSync else NoTrigger),
                w\<lparr>store := st\<rparr>)))"

subsection \<open>getFoodEntries\<close>

text \<open>
  The promise around the index request is returned without \<open>await\<close>: when the request
  fires \<open>onerror\<close> the rejection is the caller's, and the \<open>catch\<close> block sees only a failed
  \<open>openDatabase\<close>.
\<close>

definition getFoodEntries ::
  "'n env \<Rightarrow> 'n world \<Rightarrow> string \<Rightarrow> Date option \<Rightarrow> Date option
     \<Rightarrow> (error + 'n FoodEntry list) \<times> 'n world" where
  "getFoodEntries env w uid dayStart dayEnd =
     (case openDatabase env of
        Inl err \<Rightarrow> (Inr [], logError ''Error in getFoodEntries:'' err w)
      | Inr db \<Rightarrow>
          if requestError env
          then (Inl (Rejected ''Error retrieving food entries from IndexedDB''), w)
          else
            (let entries = filter (\<lambda>entry. userId entry = uid) (store w) in
             case (dayStart, dayEnd) of
               (Some s, Some t) \<Rightarrow>
                 (Inr (filter (\<lambda>entry. date_ge (date entry) s \<and> date_lt (date entry) t) entries), w)
             | _ \<Rightarrow> (Inr entries, w)))"

subsection \<open>syncWithServer\<close>

text \<open>
  The loop over the unsynced entries. Each entry is POSTed; a rejected \<open>fetch\<close> is caught
  and logged inside the loop; on \<open>response.ok\<close> the entry, with \<open>synced\<close> set, is put back
  (the request has no handler in the source: the write is taken as applied).
\<close>

fun sync_loop :: "'n env \<Rightarrow> 'n FoodEntry list \<Rightarrow> 'n world \<Rightarrow> 'n world" where
  "sync_loop env [] w = w"
| "sync_loop env (entry # rest) w =
     (let w1 = w\<lparr>network := network w @ [entry]\<rparr> in
      case fetch env entry of
        NetworkError \<Rightarrow>
          sync_loop env rest (logError ''Error syncing entry with server:'' TypeError w1)
      | Response ok \<Rightarrow>
          (if ok
           then sync_loop env rest (w1\<lparr>store := put (entry\<lparr>synced := Some True\<rparr>) (store w1)\<rparr>)
           else sync_loop env rest w1))"

text \<open>
  The body of the outer \<open>try\<close>: open, call \<open>syncIndex.getAll(false)\<close>, await its request,
  loop over what it yields. The call sits in a promise executor, so what it throws rejects
  the awaited promise and ends in the outer \<open>catch\<close>, as a request that fires \<open>onerror\<close> does.
\<close>

definition sync_body :: "'n env \<Rightarrow> 'n world \<Rightarrow> (error + unit) \<times> 'n world" where
  "sync_body env w =
     (case openDatabase env of
        Inl err \<Rightarrow> (Inl err, w)
      | Inr db \<Rightarrow>
          (case index_getAll synced_value (JSBoolean False) (store w) of
             Inl err \<Rightarrow> (Inl err, w)
           | Inr unsyncedEntries \<Rightarrow>
               if requestError env then (Inl (Rejected ''Error getting unsynced entries''), w)
               else (Inr (), sync_loop env unsyncedEntries w)))"

definition syncWithServer :: "'n env \<Rightarrow> 'n world \<Rightarrow> (error + unit) \<times> 'n world" where
  "syncWithServer env w =
     (if \<not> onLine env then (Inr (), w)
      else case sync_body env w of
             (Inl err, w') \<Rightarrow> (Inr (), logError ''Error in syncWithServer:'' err w')
           | (Inr u, w') \<Rightarrow> (Inr u, w'))"

subsection \<open>Example data\<close>

definition apple :: "int FoodEntry" where
  "apple = \<lparr>id' = Some ''local_1_a'', name = ''Apple'', calories = 95, protein = 1,
     carbs = 25, fat = 0, date = Time 1000, userId = ''u1'', synced = Some False\<rparr>"

definition bread :: "int FoodEntry" where
  "bread = \<lparr>id' = Some ''local_2_b'', name = ''Bread'', calories = 265, protein = 9,
     carbs = 49, fat = 3, date = Time 2000, userId = ''u1'', synced = Some False\<rparr>"

definition cheese :: "int FoodEntry" where
  "cheese = \<lparr>id' = Some ''local_3_c'', name = ''Cheese'', calories = 420, protein = 18,
     carbs = 40, fat = 21, date = Time 3000, userId = ''u2'', synced = Some False\<rparr>"

definition dates :: "int FoodEntry" where
  "dates = \<lparr>id' = Some ''srv_7'', name = ''Dates'', calories = 66, protein = 0,
     carbs = 18, fat = 0, date = Time 1500, userId = ''u1'', synced = Some True\<rparr>"

definition egg :: "int FoodEntry" where
  "egg = \<lparr>id' = None, name = ''Egg'', calories = 78, protein = 6,
     carbs = 1, fat = 5, date = Time 2500, userId = ''u1'', synced = Some True\<rparr>"

definition online :: "int env" where
  "online = \<lparr>onLine = True, openError = False, requestError = False,
     fetch = (\<lambda>e. Response True), now = 1700000000000, random36 = ''0.k3x9q2m7w1zp'',
     syncManager = True\<rparr>"

definition pantry :: "int world" where
  "pantry = \<lparr>store = [apple, bread, cheese, dates], network = [], console = []\<rparr>"

definition flaky :: "int env" where
  "flaky = online\<lparr>fetch := (\<lambda>e. if name e = ''Bread'' then Response False else Response True)\<rparr>"

definition offline :: "int env" where
  "offline = online\<lparr>onLine := False\<rparr>"

definition quota_full :: "int env" where
  "quota_full = online\<lparr>requestError := True\<rparr>"

definition zero_random :: "int env" where
  "zero_random = online\<lparr>random36 := ''0''\<rparr>"

section \<open>Properties\<close>

subsection \<open>The object store\<close>

lemma key_of_synced [simp]: "key_of (e\<lparr>synced := b\<rparr>) = key_of e"
  by (simp add: key_of_def)

lemma getEntry_put: "getEntry (put e st) k = (if k = key_of e then Some e else getEntry st k)"
  by (induction st) (auto simp: getEntry_def)

lemma wf_store_distinct: "wf_store st \<Longrightarrow> distinct (map key_of st)"
  unfolding wf_store_def by (simp add: strict_sorted_iff)

lemma getEntry_member: "distinct (map key_of st) \<Longrightarrow> r \<in> set st \<Longrightarrow> getEntry st (key_of r) = Some r"
  by (induction st) (auto simp: getEntry_def)

lemma set_put: "set (put e st) \<subseteq> insert e (set st)"
  by (induction st) auto

lemma wf_put: "wf_store st \<Longrightarrow> wf_store (put e st)"
  unfolding wf_store_def
proof (induction st)
  case Nil
  then show ?case by simp
next
  case (Cons x st)
  have sub: "\<forall>y\<in>set (put e st). y = e \<or> y \<in> set st" using set_put[of e st] by auto
  from Cons.prems have x: "\<forall>y\<in>set st. key_of x < key_of y" and s: "sorted_wrt (<) (map key_of st)"
    by simp_all
  show ?case
  proof (cases "key_of e < key_of x")
    case True
    with x have "\<forall>y\<in>set st. key_of e < key_of y" by (metis less_trans)
    with True x s show ?thesis by simp
  next
    case False
    show ?thesis
    proof (cases "key_of e = key_of x")
      case True
      with x s show ?thesis by simp
    next
      case ne: False
      with False have "key_of x < key_of e" by simp
      with sub x have "\<forall>y\<in>set (put e st). key_of x < key_of y" by metis
      with False ne Cons.IH[OF s] show ?thesis by simp
    qed
  qed
qed

lemma wf_sync_loop: "wf_store (store w) \<Longrightarrow> wf_store (store (sync_loop env xs w))"
  by (induction xs arbitrary: w) (simp_all add: Let_def logError_def wf_put split: response.splits)


subsection \<open>The sync loop\<close>

text \<open>
  The loop over any list of entries: each of them is POSTed, whatever happened to the ones
  before it, and each is settled on its own.
\<close>

lemma sync_loop_network: "network (sync_loop env xs w) = network w @ xs"
  by (induction xs arbitrary: w) (auto simp: Let_def logError_def split: response.splits)

lemma sync_loop_other:
  "k \<notin> keys xs \<Longrightarrow> getEntry (store (sync_loop env xs w)) k = getEntry (store w) k"
  by (induction xs arbitrary: w) (auto simp: Let_def logError_def keys_def getEntry_put split: response.splits)

lemma sync_loop_pushed:
  "distinct (map key_of xs) \<Longrightarrow> r \<in> set xs \<Longrightarrow>
   getEntry (store (sync_loop env xs w)) (key_of r) =
     (if fetch env r = Response True then Some (r\<lparr>synced := Some True\<rparr>)
      else getEntry (store w) (key_of r))"
proof (induction xs arbitrary: w)
  case Nil
  then show ?case by simp
next
  case (Cons x xs)
  from Cons.prems have d: "distinct (map key_of xs)" and nx: "key_of x \<notin> key_of ` set xs"
    by simp_all
  show ?case
  proof (cases "r = x")
    case True
    from nx True have "key_of r \<notin> keys xs" by (simp add: keys_def)
    then show ?thesis using True
      by (simp add: Let_def logError_def sync_loop_other getEntry_put split: response.splits)
  next
    case False
    with Cons.prems have r: "r \<in> set xs" by simp
    with nx have ne: "key_of r \<noteq> key_of x" by (metis imageI)
    show ?thesis using Cons.IH[OF d r] ne
      by (simp add: Let_def logError_def getEntry_put split: response.splits)
  qed
qed

lemma syncWithServer_cases:
  "syncWithServer env w =
     (if \<not> onLine env then (Inr (), w)
      else if openError env
        then (Inr (), logError ''Error in syncWithServer:'' (Rejected ''Error opening IndexedDB database'') w)
      else (Inr (), logError ''Error in syncWithServer:'' DataError w))"
  by (simp add: syncWithServer_def sync_body_def openDatabase_def index_getAll_def)

lemma sync_loop_keeps_synced:
  "getEntry (store w) k = Some r \<Longrightarrow> synced r = Some True \<Longrightarrow>
   \<exists>r'. getEntry (store (sync_loop env xs w)) k = Some r' \<and> synced r' = Some True"
proof (induction xs arbitrary: w r)
  case Nil
  then show ?case by simp
next
  case (Cons x xs)
  show ?case
  proof (cases "fetch env x")
    case NetworkError
    then show ?thesis using Cons.IH[of "logError ''Error syncing entry with server:'' TypeError (w\<lparr>network := network w @ [x]\<rparr>)" r] Cons.prems
      by (simp add: Let_def logError_def)
  next
    case (Response ok)
    show ?thesis
    proof (cases ok)
      case True
      let ?w = "w\<lparr>network := network w @ [x], store := put (x\<lparr>synced := Some True\<rparr>) (store w)\<rparr>"
      have "\<exists>r1. getEntry (store ?w) k = Some r1 \<and> synced r1 = Some True"
        using Cons.prems by (simp add: getEntry_put)
      then obtain r1 where "getEntry (store ?w) k = Some r1" "synced r1 = Some True" by blast
      from Cons.IH[OF this] show ?thesis using Response True by (simp add: Let_def)
    next
      case False
      then show ?thesis using Response Cons.IH[of "w\<lparr>network := network w @ [x]\<rparr>" r] Cons.prems
        by (simp add: Let_def)
    qed
  qed
qed

lemma syncWithServer_resolves: "fst (syncWithServer env w) = Inr ()"
  by (simp add: syncWithServer_cases)

lemma getEntry_keys: "getEntry st k = Some r \<Longrightarrow> k \<in> keys st \<and> r \<in> set st \<and> key_of r = k"
  by (auto simp: getEntry_def keys_def find_Some_iff)

lemma syncWithServer_store:
  "store (snd (syncWithServer env w)) = store w \<and> network (snd (syncWithServer env w)) = network w"
  by (simp add: syncWithServer_cases logError_def)

lemma wf_store_syncWithServer:
  "wf_store (store w) \<Longrightarrow> wf_store (store (snd (syncWithServer env w)))"
  by (simp add: syncWithServer_store)

subsection \<open>Lemmas about saveFoodEntry\<close>

lemma prepare_id:
  "id' (prepare env entry) = Some (if no_id entry then generated_id env else key_of entry)"
  by (auto simp: prepare_def no_id_def key_of_def split: option.splits)

lemma prepare_eq:
  "prepare env entry = entry\<lparr>id' := Some (key_of (prepare env entry)), synced := Some False\<rparr>"
  by (auto simp: prepare_def no_id_def key_of_def split: option.splits)

lemma saveFoodEntry_cases:
  "saveFoodEntry env w entry =
     (if openError env
      then (Inl (Rejected ''Error opening IndexedDB database''), entry, NoTrigger,
            logError ''Error in saveFoodEntry:'' (Rejected ''Error opening IndexedDB database'') w)
      else if requestError env \<or> key_of (prepare env entry) \<in> keys (store w)
      then (Inl (Rejected ''Error saving food entry to IndexedDB''), prepare env entry, NoTrigger, w)
      else (Inr (key_of (prepare env entry)), prepare env entry,
            (if onLine env then RunSync else if syncManager env then RegisterSync else NoTrigger),
            w\<lparr>store := put (prepare env entry) (store w)\<rparr>))"
  by (simp add: saveFoodEntry_def openDatabase_def add_def Let_def)

lemma saveFoodEntry_keeps:
  assumes "getEntry (store w) k = Some r"
  shows "getEntry (store (snd (snd (snd (saveFoodEntry env w entry))))) k = Some r"
proof -
  have "k \<in> keys (store w)" using assms by (simp add: getEntry_keys)
  then show ?thesis using assms
    by (auto simp: saveFoodEntry_def openDatabase_def logError_def add_def Let_def getEntry_put)
qed

text \<open>The invariant holds of the empty store, and every operation keeps it.\<close>

lemma wf_store_empty: "wf_store []"
  by (simp add: wf_store_def)

lemma wf_store_saveFoodEntry:
  "wf_store (store w) \<Longrightarrow> wf_store (store (snd (snd (snd (saveFoodEntry env w entry)))))"
  by (simp add: saveFoodEntry_cases logError_def wf_put)

lemma show_nat_digits: "show_nat n \<noteq> [] \<and> list_all is_digit (show_nat n)"
proof (induction n rule: show_nat.induct)
  case (1 n)
  have d: "m < 10 \<Longrightarrow> is_digit (''0123456789'' ! m)" for m
    unfolding is_digit_def by (rule nth_mem) simp
  show ?case
  proof (cases "n < 10")
    case True
    then show ?thesis using d[of n] by (simp add: show_nat.simps[of n])
  next
    case False
    then show ?thesis using 1 d[of "n mod 10"] by (simp add: show_nat.simps[of n])
  qed
qed

lemma digit_val_nth: "m < 10 \<Longrightarrow> digit_val (''0123456789'' ! m) = m"
proof -
  assume "m < 10"
  then have "m = 0 \<or> m = 1 \<or> m = 2 \<or> m = 3 \<or> m = 4 \<or> m = 5 \<or> m = 6 \<or> m = 7 \<or> m = 8 \<or> m = 9"
    by arith
  then show ?thesis by (elim disjE) (simp_all add: digit_val_def)
qed

lemma digits_value_snoc: "digits_value (ds @ [c]) = 10 * digits_value ds + digit_val c"
  by (simp add: digits_value_def)

lemma digits_value_show_nat: "digits_value (show_nat n) = n"
proof (induction n rule: show_nat.induct)
  case (1 n)
  show ?case
  proof (cases "n < 10")
    case True
    then show ?thesis by (simp add: show_nat.simps[of n] digits_value_def digit_val_nth)
  next
    case False
    then have "digits_value (show_nat n) = 10 * (n div 10) + n mod 10"
      using 1 by (simp add: show_nat.simps[of n] digits_value_snoc digit_val_nth)
    then show ?thesis by simp
  qed
qed

lemma not_digit_underscore: "\<not> is_digit CHR ''_''" and not_digit_minus: "\<not> is_digit CHR ''-''"
  by (simp_all add: is_digit_def)

lemma local_id_pattern_decimal:
  assumes "ds \<noteq> []" and "list_all is_digit ds"
  shows "local_id_pattern (''local_'' @ ds @ ''_'' @ sfx) \<longleftrightarrow> sfx \<noteq> [] \<and> list_all is_alnum sfx"
proof -
  have d: "\<And>x. x \<in> set ds \<Longrightarrow> is_digit x" using assms(2) by (simp add: list_all_iff)
  have t: "takeWhile is_digit (ds @ CHR ''_'' # sfx) = ds"
    using d by (simp add: takeWhile_append2 not_digit_underscore)
  have r: "dropWhile is_digit (ds @ CHR ''_'' # sfx) = CHR ''_'' # sfx"
    using d by (simp add: dropWhile_append2 not_digit_underscore)
  show ?thesis using assms(1) by (simp add: local_id_pattern_def t r)
qed

lemma local_id_pattern_minus: "\<not> local_id_pattern (''local_'' @ CHR ''-'' # rest)"
  by (simp add: local_id_pattern_def not_digit_minus)

lemma radix36_nonempty:
  "radix36_fraction s \<Longrightarrow> (take 9 (drop 2 s) \<noteq> []) = (s \<noteq> ''0'')"
  by (auto simp: radix36_fraction_def)

lemma radix36_base36:
  "radix36_fraction s \<Longrightarrow> list_all is_base36 (take 9 (drop 2 s)) \<and> length (take 9 (drop 2 s)) \<le> 9"
  by (auto simp: radix36_fraction_def list_all_iff dest: in_set_takeD)

subsection \<open>Lemmas about getFoodEntries\<close>

lemma getFoodEntries_cases:
  "getFoodEntries env w uid dayStart dayEnd =
     (if openError env
      then (Inr [], logError ''Error in getFoodEntries:'' (Rejected ''Error opening IndexedDB database'') w)
      else if requestError env
      then (Inl (Rejected ''Error retrieving food entries from IndexedDB''), w)
      else case (dayStart, dayEnd) of
             (Some s, Some t) \<Rightarrow>
               (Inr (filter (\<lambda>entry. userId entry = uid \<and> date_ge (date entry) s \<and> date_lt (date entry) t)
                      (store w)), w)
           | _ \<Rightarrow> (Inr (filter (\<lambda>entry. userId entry = uid) (store w)), w))"
  by (auto simp: getFoodEntries_def openDatabase_def Let_def conj_commute split: option.splits)

subsection \<open>Claims about syncWithServer\<close>



text \<open>
  C6. Without connectivity, \<open>syncWithServer\<close> makes no network call and leaves the store,
  hence every record and every \<open>synced\<close> flag, as it was.
\<close>

theorem syncWithServer_offline:
  assumes "\<not> onLine env" and "syncWithServer env w = (res, w')"
  shows "res = Inr () \<and> network w' = network w \<and> store w' = store w \<and> w' = w"
  using assms by (simp add: syncWithServer_def)

theorem syncWithServer_offline_witness:
  "\<not> onLine offline \<and> network (snd (syncWithServer offline pantry)) = network pantry \<and>
   store (snd (syncWithServer offline pantry)) = store pantry \<and>
   store pantry = [apple, bread, cheese, dates] \<and> network pantry = []"
proof -
  have off: "\<not> onLine offline" by (simp add: offline_def online_def)
  from syncWithServer_offline [OF off prod.collapse [symmetric], of pantry] off
  show ?thesis by (simp add: pantry_def)
qed

text \<open>
  C7. The \<open>synced\<close> flag never goes back from true to false: a record stored with
  \<open>synced = true\<close> is stored unchanged after a whole pass of \<open>syncWithServer\<close> and after a
  \<open>saveFoodEntry\<close>, and after any number of steps of the sync loop, from any state, the
  record under its key still has \<open>synced = true\<close>.
\<close>

theorem synced_never_reverts:
  assumes "wf_store (store w)" and "getEntry (store w) k = Some r" and "synced r = Some True"
  shows "getEntry (store (snd (syncWithServer env w))) k = Some r \<and>
         getEntry (store (snd (snd (snd (saveFoodEntry env1 w entry))))) k = Some r \<and>
         (\<exists>r'. getEntry (store (sync_loop env2 xs w)) k = Some r' \<and> synced r' = Some True)"
proof -
  have "getEntry (store (snd (syncWithServer env w))) k = Some r"
    using assms(2) by (simp add: syncWithServer_store)
  moreover have "getEntry (store (snd (snd (snd (saveFoodEntry env1 w entry))))) k = Some r"
    using assms(2) by (rule saveFoodEntry_keeps)
  moreover have "\<exists>r'. getEntry (store (sync_loop env2 xs w)) k = Some r' \<and> synced r' = Some True"
    using assms(2,3) by (rule sync_loop_keeps_synced)
  ultimately show ?thesis by simp
qed

theorem synced_never_reverts_witness:
  "wf_store (store pantry) \<and> getEntry (store pantry) ''srv_7'' = Some dates \<and>
   synced dates = Some True \<and>
   getEntry (store (snd (syncWithServer online pantry))) ''srv_7'' = Some dates \<and>
   getEntry (store (snd (snd (snd (saveFoodEntry online pantry (dates\<lparr>name := ''Figs''\<rparr>)))))) ''srv_7''
     = Some dates \<and>
   (\<exists>r'. getEntry (store (sync_loop flaky [apple, bread] pantry)) ''srv_7'' = Some r' \<and>
      synced r' = Some True)"
proof -
  have wf: "wf_store (store pantry)"
    by (simp add: wf_store_def pantry_def apple_def bread_def cheese_def dates_def key_of_def)
  have g: "getEntry (store pantry) ''srv_7'' = Some dates"
    by (simp add: getEntry_def pantry_def apple_def bread_def cheese_def dates_def key_of_def)
  have s: "synced dates = Some True" by (simp add: dates_def)
  from synced_never_reverts [OF wf g s, of online online "dates\<lparr>name := ''Figs''\<rparr>" flaky "[apple, bread]"] wf g s
  show ?thesis by simp
qed

subsection \<open>Claims about saveFoodEntry\<close>

text \<open>
  C3. Whenever \<open>saveFoodEntry\<close> returns an id, the record stored under that id is the
  caller's record with that id and with \<open>synced = false\<close>, whatever \<open>synced\<close> the caller
  supplied.
\<close>

theorem saveFoodEntry_forces_unsynced:
  assumes "saveFoodEntry env w entry = (Inr k, entry', t, w')"
  shows "getEntry (store w') k = Some (entry\<lparr>id' := Some k, synced := Some False\<rparr>) \<and>
         (\<forall>stored. getEntry (store w') k = Some stored \<longrightarrow> synced stored = Some False)"
proof -
  from assms have k: "k = key_of (prepare env entry)"
    and w': "w' = w\<lparr>store := put (prepare env entry) (store w)\<rparr>"
    by (auto simp: saveFoodEntry_cases split: if_splits)
  have "getEntry (store w') k = Some (prepare env entry)"
    by (simp add: w' k getEntry_put)
  moreover have "prepare env entry = entry\<lparr>id' := Some k, synced := Some False\<rparr>"
    using prepare_eq[of env entry] k by simp
  ultimately show ?thesis by simp
qed

theorem saveFoodEntry_forces_unsynced_witness:
  "synced dates = Some True \<and>
   fst (saveFoodEntry online \<lparr>store = [apple], network = [], console = []\<rparr> dates) = Inr ''srv_7'' \<and>
   getEntry (store (snd (snd (snd (saveFoodEntry online
       \<lparr>store = [apple], network = [], console = []\<rparr> dates))))) ''srv_7''
     = Some (dates\<lparr>synced := Some False\<rparr>)"
proof -
  let ?w = "\<lparr>store = [apple], network = [], console = []\<rparr> :: int world"
  have run: "saveFoodEntry online ?w dates
      = (Inr ''srv_7'', dates\<lparr>synced := Some False\<rparr>, RunSync,
         \<lparr>store = [apple, dates\<lparr>synced := Some False\<rparr>], network = [], console = []\<rparr>)"
    by (simp add: saveFoodEntry_cases prepare_def no_id_def keys_def key_of_def online_def
        apple_def dates_def)
  have d: "dates\<lparr>id' := Some ''srv_7'', synced := Some False\<rparr> = dates\<lparr>synced := Some False\<rparr>"
    by (simp add: dates_def)
  from saveFoodEntry_forces_unsynced [OF run] d run
  show ?thesis by (simp add: dates_def)
qed

text \<open>
  C8. The claim is that every id generated for a record without one matches
  \<open>local_<digits>_<alnum>\<close>. When \<open>Math.random()\<close> returns 0, \<open>toString(36)\<close> is \<open>0\<close> and
  \<open>substr(2, 9)\<close> of it is empty, so the id ends with the underscore. What holds: the id is
  \<open>local_\<close>, \<open>Date.now()\<close> written out, an underscore, and at most nine base-36 characters of
  the random string; it matches the pattern exactly when \<open>Date.now()\<close> is not negative and
  \<open>Math.random()\<close> is not 0, and the digits then denote \<open>Date.now()\<close>.
\<close>

theorem saveFoodEntry_generated_id:
  assumes "no_id entry"
    and "radix36_fraction (random36 env)"
    and "saveFoodEntry env w entry = (Inr k, entry', t, w')"
  shows "k = ''local_'' @ show_int (now env) @ ''_'' @ take 9 (drop 2 (random36 env)) \<and>
         id' entry' = Some k \<and>
         (local_id_pattern k \<longleftrightarrow> 0 \<le> now env \<and> random36 env \<noteq> ''0'') \<and>
         (0 \<le> now env \<longrightarrow>
            show_int (now env) \<noteq> [] \<and> list_all is_digit (show_int (now env)) \<and>
            int (digits_value (show_int (now env))) = now env) \<and>
         list_all is_base36 (take 9 (drop 2 (random36 env))) \<and>
         length (take 9 (drop 2 (random36 env))) \<le> 9 \<and>
         (take 9 (drop 2 (random36 env)) = [] \<longleftrightarrow> random36 env = ''0'')"
proof -
  let ?sfx = "take 9 (drop 2 (random36 env))"
  from assms(3) have k: "k = key_of (prepare env entry)" and e: "entry' = prepare env entry"
    by (auto simp: saveFoodEntry_cases split: if_splits)
  have i: "id' (prepare env entry) = Some (generated_id env)"
    using assms(1) by (simp add: prepare_id)
  then have kg: "k = ''local_'' @ show_int (now env) @ ''_'' @ ?sfx"
    by (simp add: k key_of_def generated_id_def)
  have ie: "id' entry' = Some k" using i e k by (simp add: key_of_def)
  have b: "list_all is_base36 ?sfx \<and> length ?sfx \<le> 9" using assms(2) by (rule radix36_base36)
  then have al: "list_all is_alnum ?sfx" by (simp add: list_all_iff is_alnum_def)
  have ne: "(?sfx \<noteq> []) = (random36 env \<noteq> ''0'')" using assms(2) by (rule radix36_nonempty)
  have pat: "local_id_pattern k \<longleftrightarrow> 0 \<le> now env \<and> random36 env \<noteq> ''0''"
  proof (cases "0 \<le> now env")
    case True
    then have s: "show_int (now env) = show_nat (nat (now env))" by (simp add: show_int_def)
    show ?thesis unfolding kg s
      using local_id_pattern_decimal[of "show_nat (nat (now env))" ?sfx]
        show_nat_digits[of "nat (now env)"] al ne True by simp
  next
    case False
    then have "show_int (now env) = CHR ''-'' # show_nat (nat (- now env))"
      by (simp add: show_int_def)
    then show ?thesis unfolding kg using False local_id_pattern_minus by simp
  qed
  have dec: "0 \<le> now env \<longrightarrow>
      show_int (now env) \<noteq> [] \<and> list_all is_digit (show_int (now env)) \<and>
      int (digits_value (show_int (now env))) = now env"
    using show_nat_digits[of "nat (now env)"] digits_value_show_nat[of "nat (now env)"]
    by (simp add: show_int_def)
  show ?thesis using kg ie pat dec b ne by simp
qed

theorem saveFoodEntry_generated_id_witness:
  "no_id egg \<and> id' egg = None \<and> radix36_fraction (random36 online) \<and>
   saveFoodEntry online pantry egg
     = (Inr ''local_1700000000000_k3x9q2m7w'',
        egg\<lparr>id' := Some ''local_1700000000000_k3x9q2m7w'', synced := Some False\<rparr>,
        RunSync,
        pantry\<lparr>store :=
           [egg\<lparr>id' := Some ''local_1700000000000_k3x9q2m7w'', synced := Some False\<rparr>,
            apple, bread, cheese, dates]\<rparr>) \<and>
   now online = 1700000000000 \<and> random36 online = ''0.k3x9q2m7w1zp'' \<and>
   show_int (now online) = ''1700000000000'' \<and>
   digits_value ''1700000000000'' = 1700000000000 \<and>
   local_id_pattern ''local_1700000000000_k3x9q2m7w''"
proof -
  have n: "no_id egg" and n': "id' egg = None" by (simp_all add: no_id_def egg_def)
  have t: "now online = 1700000000000" and x: "random36 online = ''0.k3x9q2m7w1zp''"
    by (simp_all add: online_def)
  have r: "radix36_fraction (random36 online)"
    by (simp add: radix36_fraction_def online_def is_base36_def)
  have s: "show_int (now online) = ''1700000000000''"
    by (simp add: online_def show_int_def show_nat.simps)
  have g: "generated_id online = ''local_1700000000000_k3x9q2m7w''"
    by (simp add: generated_id_def s) (simp add: online_def)
  have p: "prepare online egg = egg\<lparr>id' := Some ''local_1700000000000_k3x9q2m7w'', synced := Some False\<rparr>"
    using n g by (simp add: prepare_def)
  have kp: "key_of (prepare online egg) = ''local_1700000000000_k3x9q2m7w''"
    by (simp add: p key_of_def)
  have run: "saveFoodEntry online pantry egg
     = (Inr ''local_1700000000000_k3x9q2m7w'',
        egg\<lparr>id' := Some ''local_1700000000000_k3x9q2m7w'', synced := Some False\<rparr>,
        RunSync,
        pantry\<lparr>store :=
           [egg\<lparr>id' := Some ''local_1700000000000_k3x9q2m7w'', synced := Some False\<rparr>,
            apple, bread, cheese, dates]\<rparr>)"
    unfolding saveFoodEntry_cases kp unfolding p
    by (simp add: online_def pantry_def keys_def key_of_def apple_def bread_def cheese_def
        dates_def egg_def)
  note th = saveFoodEntry_generated_id [OF n r run]
  from th have pat: "local_id_pattern ''local_1700000000000_k3x9q2m7w''"
    by (simp add: t x)
  from th have "int (digits_value (show_int (now online))) = now online" by (simp add: t)
  then have dv: "digits_value ''1700000000000'' = 1700000000000"
    unfolding s unfolding t by simp
  from n n' r run t x s pat dv show ?thesis by simp
qed

theorem saveFoodEntry_generated_id_counterexample:
  "id' egg = None \<and>
   fst (saveFoodEntry zero_random pantry egg) = Inr ''local_1700000000000_'' \<and>
   \<not> local_id_pattern ''local_1700000000000_''"
proof -
  have n: "id' egg = None" by (simp add: egg_def)
  have g: "generated_id zero_random = ''local_1700000000000_''"
    by (simp add: generated_id_def zero_random_def online_def show_int_def show_nat.simps)
  have p: "prepare zero_random egg = egg\<lparr>id' := Some ''local_1700000000000_'', synced := Some False\<rparr>"
    using g by (simp add: prepare_def no_id_def egg_def)
  have kp: "key_of (prepare zero_random egg) = ''local_1700000000000_''"
    by (simp add: p key_of_def)
  have run: "fst (saveFoodEntry zero_random pantry egg) = Inr ''local_1700000000000_''"
    unfolding saveFoodEntry_cases kp
    by (simp add: zero_random_def online_def pantry_def keys_def key_of_def apple_def bread_def
        cheese_def dates_def)
  have "\<not> local_id_pattern ''local_1700000000000_''"
    by (simp add: local_id_pattern_def is_digit_def)
  with n run show ?thesis by simp
qed

text \<open>
  C10. Once the database is open, the caller's own object is changed, whether or not the
  \<open>add\<close> request then succeeds: it gets the generated id if it had none, and
  \<open>synced = false\<close>.
\<close>

theorem saveFoodEntry_mutates_argument:
  assumes "\<not> openError env" and "saveFoodEntry env w entry = (res, entry', t, w')"
  shows "synced entry' = Some False \<and>
         entry' = (if no_id entry
                   then entry\<lparr>id' := Some (generated_id env), synced := Some False\<rparr>
                   else entry\<lparr>synced := Some False\<rparr>)"
proof -
  from assms have e: "entry' = prepare env entry"
    by (auto simp: saveFoodEntry_cases split: if_splits)
  show ?thesis unfolding e by (simp add: prepare_def)
qed

theorem saveFoodEntry_mutates_argument_witness:
  "\<not> openError quota_full \<and>
   fst (saveFoodEntry quota_full pantry egg) = Inl (Rejected ''Error saving food entry to IndexedDB'') \<and>
   store (snd (snd (snd (saveFoodEntry quota_full pantry egg)))) = store pantry \<and>
   id' egg = None \<and> synced egg = Some True \<and>
   fst (snd (saveFoodEntry quota_full pantry egg))
     = egg\<lparr>id' := Some ''local_1700000000000_k3x9q2m7w'', synced := Some False\<rparr>"
proof -
  have o: "\<not> openError quota_full" by (simp add: quota_full_def online_def)
  have g: "generated_id quota_full = ''local_1700000000000_k3x9q2m7w''"
    by (simp add: generated_id_def quota_full_def online_def show_int_def show_nat.simps)
  have n: "no_id egg" by (simp add: no_id_def egg_def)
  have r: "requestError quota_full" by (simp add: quota_full_def online_def)
  have run: "saveFoodEntry quota_full pantry egg
      = (Inl (Rejected ''Error saving food entry to IndexedDB''), prepare quota_full egg, NoTrigger, pantry)"
    using o r by (simp add: saveFoodEntry_cases)
  from saveFoodEntry_mutates_argument [OF o run] o g n run
  show ?thesis by (simp add: egg_def)
qed

subsection \<open>Claims about getFoodEntries\<close>

text \<open>
  C4. When the database opens and the index request succeeds, \<open>getFoodEntries\<close> without
  bounds returns exactly the stored records of the given user, and with both bounds
  exactly those of them with \<open>dayStart \<le> date < dayEnd\<close>: a record dated \<open>dayEnd\<close> is left
  out, and a record dated \<open>dayStart\<close> is returned (when the range is not empty).
\<close>

theorem getFoodEntries_owner_and_range:
  assumes "\<not> openError env" and "\<not> requestError env"
  shows "fst (getFoodEntries env w uid None None) = Inr (filter (\<lambda>e. userId e = uid) (store w)) \<and>
         fst (getFoodEntries env w uid (Some rangeStart) (Some rangeEnd))
           = Inr (filter (\<lambda>e. userId e = uid \<and> date_ge (date e) rangeStart \<and> date_lt (date e) rangeEnd)
                    (store w)) \<and>
         (\<exists>found. fst (getFoodEntries env w uid (Some (Time s)) (Some (Time t))) = Inr found \<and>
            (\<forall>e. e \<in> set found \<longleftrightarrow>
                   e \<in> set (store w) \<and> userId e = uid \<and> (\<exists>x. date e = Time x \<and> s \<le> x \<and> x < t)) \<and>
            (\<forall>e. date e = Time t \<longrightarrow> e \<notin> set found) \<and>
            (\<forall>e. e \<in> set (store w) \<and> userId e = uid \<and> date e = Time s \<and> s < t \<longrightarrow> e \<in> set found))"
proof -
  have a: "fst (getFoodEntries env w uid None None) = Inr (filter (\<lambda>e. userId e = uid) (store w))"
    using assms by (simp add: getFoodEntries_cases)
  have b: "fst (getFoodEntries env w uid (Some p) (Some q))
      = Inr (filter (\<lambda>e. userId e = uid \<and> date_ge (date e) p \<and> date_lt (date e) q) (store w))" for p q
    using assms by (simp add: getFoodEntries_cases)
  let ?found = "filter (\<lambda>e. userId e = uid \<and> date_ge (date e) (Time s) \<and> date_lt (date e) (Time t)) (store w)"
  have m: "e \<in> set ?found \<longleftrightarrow>
      e \<in> set (store w) \<and> userId e = uid \<and> (\<exists>x. date e = Time x \<and> s \<le> x \<and> x < t)" for e
    by (cases "date e") auto
  have c: "(\<forall>e. e \<in> set ?found \<longleftrightarrow>
                   e \<in> set (store w) \<and> userId e = uid \<and> (\<exists>x. date e = Time x \<and> s \<le> x \<and> x < t)) \<and>
            (\<forall>e. date e = Time t \<longrightarrow> e \<notin> set ?found) \<and>
            (\<forall>e. e \<in> set (store w) \<and> userId e = uid \<and> date e = Time s \<and> s < t \<longrightarrow> e \<in> set ?found)"
    using m by auto
  show ?thesis using a b[of rangeStart rangeEnd] b[of "Time s" "Time t"] c by blast
qed

theorem getFoodEntries_owner_and_range_witness:
  "\<not> openError online \<and> \<not> requestError online \<and>
   fst (getFoodEntries online pantry ''u1'' None None) = Inr [apple, bread, dates] \<and>
   fst (getFoodEntries online pantry ''u1'' (Some (Time 1000)) (Some (Time 2000))) = Inr [apple, dates] \<and>
   date apple = Time 1000 \<and> date bread = Time 2000 \<and> userId cheese = ''u2''"
proof -
  have o: "\<not> openError online" and r: "\<not> requestError online" by (simp_all add: online_def)
  have f: "filter (\<lambda>e. userId e = ''u1'') (store pantry) = [apple, bread, dates]"
    by (simp add: pantry_def apple_def bread_def cheese_def dates_def)
  have g: "filter (\<lambda>e. userId e = ''u1'' \<and> date_ge (date e) (Time 1000) \<and> date_lt (date e) (Time 2000))
             (store pantry) = [apple, dates]"
    by (simp add: pantry_def apple_def bread_def cheese_def dates_def)
  have d: "date apple = Time 1000 \<and> date bread = Time 2000 \<and> userId cheese = ''u2''"
    by (simp add: apple_def bread_def cheese_def)
  from getFoodEntries_owner_and_range [OF o r, of pantry "''u1''" "Time 1000" "Time 2000"] o r f g d
  show ?thesis by simp
qed

text \<open>
  C5. The claim is that no failure on the read path reaches the caller. A failed
  \<open>openDatabase\<close> is caught and answered with the empty list, but when the index request
  fires \<open>onerror\<close> the returned promise is rejected and the caller sees the error.
\<close>

theorem getFoodEntries_request_error_escapes:
  "fst (getFoodEntries (online\<lparr>requestError := True\<rparr>) pantry ''u1'' None None)
     = Inl (Rejected ''Error retrieving food entries from IndexedDB'') \<and>
   fst (getFoodEntries (online\<lparr>openError := True\<rparr>) pantry ''u1'' None None) = Inr []"
  by (simp add: getFoodEntries_cases online_def)

text \<open>
  C9. With only one of the two bounds, \<open>getFoodEntries\<close> does what it does with none: no
  filter on the date, every record of the user is returned.
\<close>

theorem getFoodEntries_single_bound:
  "getFoodEntries env w uid (Some s) None = getFoodEntries env w uid None None \<and>
   getFoodEntries env w uid None (Some t) = getFoodEntries env w uid None None \<and>
   (\<not> openError env \<and> \<not> requestError env \<longrightarrow>
      fst (getFoodEntries env w uid (Some s) None) = Inr (filter (\<lambda>e. userId e = uid) (store w)) \<and>
      fst (getFoodEntries env w uid None (Some t)) = Inr (filter (\<lambda>e. userId e = uid) (store w)))"
  by (simp add: getFoodEntries_cases)

theorem getFoodEntries_single_bound_witness:
  "\<not> openError online \<and> \<not> requestError online \<and>
   fst (getFoodEntries online pantry ''u1'' (Some (Time 1800)) None) = Inr [apple, bread, dates] \<and>
   fst (getFoodEntries online pantry ''u1'' None (Some (Time 1200))) = Inr [apple, bread, dates]"
proof -
  have o: "\<not> openError online \<and> \<not> requestError online" by (simp add: online_def)
  have f: "filter (\<lambda>e. userId e = ''u1'') (store pantry) = [apple, bread, dates]"
    by (simp add: pantry_def apple_def bread_def cheese_def dates_def)
  from getFoodEntries_single_bound [of online pantry "''u1''" "Time 1800" "Time 1200"] o
  have "fst (getFoodEntries online pantry ''u1'' (Some (Time 1800)) None)
          = Inr (filter (\<lambda>e. userId e = ''u1'') (store pantry)) \<and>
        fst (getFoodEntries online pantry ''u1'' None (Some (Time 1200)))
          = Inr (filter (\<lambda>e. userId e = ''u1'') (store pantry))"
    by blast
  with o show ?thesis unfolding f by simp
qed

end
